theory Spec2Isabelle
  imports Main
begin

section \<open>The segment model of the router (segments.ts)\<close>

text \<open>
  The router keeps two trees: a tree of \<open>UrlSegment\<close> values (the raw URL) and a tree of
  \<open>RouteSegment\<close> values (the matched routes). Both are instances of one generic class
  \<open>Tree<T>\<close> over \<open>TreeNode<T>\<close>. The functions of segments.ts are translated one by one.

  JavaScript behaviour that a HOL function does not have by itself is made explicit:
  \<^item> \<open>null\<close> is \<open>None\<close> of an option type;
  \<^item> reading a property of \<open>null\<close> throws a \<open>TypeError\<close>: functions that can do so return
    \<open>error + 'a\<close>, with \<open>Inl TypeError\<close> for the exception;
  \<^item> \<open>===\<close> on objects compares references: every segment object carries its reference
    in the field \<open>ref\<close>, which no structural comparison reads.
\<close>

datatype error = TypeError

text \<open>
  A string map (\<open>{[key: string]: any}\<close>) is an association list in insertion order, the
  order in which JavaScript enumerates the keys. The URL parser produces string values.
\<close>

type_synonym StringMap = "(string \<times> string) list"

text \<open>
  \<open>class UrlSegment { segment; parameters; outlet }\<close>. The parser and the link function
  produce string tokens for \<open>segment\<close>, on which \<open>!=\<close> is inequality of strings; an absent
  outlet (the primary outlet) is \<open>None\<close>.
\<close>

record UrlSegment =
  ref :: nat
  segment :: string
  parameters :: "StringMap option"
  outlet :: "string option"

text \<open>
  \<open>class RouteSegment { urlSegments; parameters; outlet; _type; _componentFactory }\<close>.
  The matched type and the component factory are opaque tokens, compared by identity; they
  are numbered here, and \<open>None\<close> is \<open>null\<close>.
\<close>

record RouteSegment =
  ref :: nat
  urlSegments :: "UrlSegment list"
  parameters :: "StringMap option"
  outlet :: "string option"
  type :: "nat option"
  componentFactory :: "nat option"

text \<open>
  The values a \<open>Tree<T>\<close> can hold, by the runtime variants \<open>_equalValues\<close> tells apart:
  a \<open>RouteSegment\<close>, a \<open>UrlSegment\<close>, or anything else (\<open>VOther\<close>, a primitive or an opaque
  reference, compared by \<open>===\<close>; the number \<open>NaN\<close>, which is not \<open>===\<close> to itself, is left out).
\<close>

datatype 'a tvalue = VNull | VRoute RouteSegment | VUrl UrlSegment | VOther 'a

datatype 'a TreeNode = TreeNode (val: "'a tvalue") (children: "'a TreeNode list")

text \<open>\<open>class Tree<T> { _root }\<close>; a tree object has a reference of its own.\<close>

record 'a Tree =
  ref :: nat
  root_node :: "'a TreeNode"

subsection \<open>Helpers of the facade\<close>

text \<open>
  Modelled from the spec: \<open>isBlank\<close> and \<open>isPresent\<close> (facade/lang) are not among the
  sources. The spec reads \<open>isBlank\<close> as "absent (null)" and \<open>isPresent\<close> as its negation.
\<close>

definition isBlank :: "'a option \<Rightarrow> bool" where
  "isBlank obj = (obj = None)"

definition isPresent :: "'a option \<Rightarrow> bool" where
  "isPresent obj = (obj \<noteq> None)"

text \<open>
  Modelled from the spec: \<open>StringMapWrapper.equals\<close> (facade/collection) is not among the
  sources. The spec: two parameter maps are equal when they are equal as sets of key/value
  pairs, whatever the order of the keys. An absent map has no entries to read, and the spec
  calls an absent parameter map a violated precondition of the comparison: the model makes
  the comparison of an absent map throw, as every other read of \<open>null\<close> does.
\<close>

fun StringMapWrapper_equals :: "StringMap option \<Rightarrow> StringMap option \<Rightarrow> error + bool" where
  "StringMapWrapper_equals (Some m1) (Some m2) = Inr (set m1 = set m2)"
| "StringMapWrapper_equals _ _ = Inl TypeError"

subsection \<open>Equality of segments\<close>

text \<open>
  \<^verbatim>\<open>
  export function equalSegments(a: RouteSegment, b: RouteSegment): boolean {
    if (isBlank(a) && !isBlank(b)) return false;
    if (!isBlank(a) && isBlank(b)) return false;
    if (a._type !== b._type) return false;
    if (a.outlet != b.outlet) return false;
    return StringMapWrapper.equals(a.parameters, b.parameters);
  }
  \<close>
  When both arguments are \<open>null\<close> neither guard returns, and \<open>a._type\<close> throws.
\<close>

definition equalSegments :: "RouteSegment option \<Rightarrow> RouteSegment option \<Rightarrow> error + bool" where
  "equalSegments a b =
     (if isBlank a \<and> \<not> isBlank b then Inr False
      else if \<not> isBlank a \<and> isBlank b then Inr False
      else case (a, b) of
        (Some x, Some y) \<Rightarrow>
          if type x \<noteq> type y then Inr False
          else if RouteSegment.outlet x \<noteq> RouteSegment.outlet y then Inr False
          else StringMapWrapper_equals (RouteSegment.parameters x) (RouteSegment.parameters y)
      | _ \<Rightarrow> Inl TypeError)"

text \<open>
  \<^verbatim>\<open>
  export function equalUrlSegments(a: UrlSegment, b: UrlSegment): boolean {
    if (isBlank(a) && !isBlank(b)) return false;
    if (!isBlank(a) && isBlank(b)) return false;
    if (a.segment != b.segment) return false;
    if (a.outlet != b.outlet) return false;
    if (isBlank(a.parameters)) { console.log("a", a); }
    if (isBlank(b.parameters)) { console.log("b", b); }
    return StringMapWrapper.equals(a.parameters, b.parameters);
  }
  \<close>
  The result and the console output are two functions of the same arguments.
\<close>

definition equalUrlSegments :: "UrlSegment option \<Rightarrow> UrlSegment option \<Rightarrow> error + bool" where
  "equalUrlSegments a b =
     (if isBlank a \<and> \<not> isBlank b then Inr False
      else if \<not> isBlank a \<and> isBlank b then Inr False
      else case (a, b) of
        (Some x, Some y) \<Rightarrow>
          if segment x \<noteq> segment y then Inr False
          else if UrlSegment.outlet x \<noteq> UrlSegment.outlet y then Inr False
          else StringMapWrapper_equals (UrlSegment.parameters x) (UrlSegment.parameters y)
      | _ \<Rightarrow> Inl TypeError)"

definition equalUrlSegments_console :: "UrlSegment option \<Rightarrow> UrlSegment option \<Rightarrow> (string \<times> UrlSegment) list" where
  "equalUrlSegments_console a b =
     (case (a, b) of
        (Some x, Some y) \<Rightarrow>
          if segment x \<noteq> segment y then []
          else if UrlSegment.outlet x \<noteq> UrlSegment.outlet y then []
          else (if isBlank (UrlSegment.parameters x) then [(''a'', x)] else [])
             @ (if isBlank (UrlSegment.parameters y) then [(''b'', y)] else [])
      | _ \<Rightarrow> [])"

subsection \<open>RouteSegment.getParam\<close>

text \<open>
  \<^verbatim>\<open>
  getParam(param: string): string {
    return isPresent(this.parameters) ? this.parameters[param] : null;
  }
  \<close>
  The receiver is an object, so nothing in the body can throw. A name the map does not hold
  itself is looked up in the prototype chain of the map and gives \<open>undefined\<close> or a member of
  \<open>Object.prototype\<close> (such as \<open>toString\<close>); the model does not say which and answers
  \<open>FromPrototype\<close>.
\<close>

datatype jsresult = Null | FromPrototype | Str string

definition getParam :: "RouteSegment \<Rightarrow> string \<Rightarrow> jsresult" where
  "getParam this param =
     (if isPresent (RouteSegment.parameters this)
      then (case map_of (the (RouteSegment.parameters this)) param of
              None \<Rightarrow> FromPrototype | Some v \<Rightarrow> Str v)
      else Null)"

subsection \<open>Equality of tree values\<close>

text \<open>\<open>a === b\<close>: references for objects, the value itself otherwise.\<close>

fun strict_eq :: "'a tvalue \<Rightarrow> 'a tvalue \<Rightarrow> bool" where
  "strict_eq VNull VNull = True"
| "strict_eq (VRoute a) (VRoute b) = (RouteSegment.ref a = RouteSegment.ref b)"
| "strict_eq (VUrl a) (VUrl b) = (UrlSegment.ref a = UrlSegment.ref b)"
| "strict_eq (VOther x) (VOther y) = (x = y)"
| "strict_eq _ _ = False"

text \<open>
  \<open>equalSegments(<any>a, <any>b)\<close> with \<open>a\<close> a \<open>RouteSegment\<close> and \<open>b\<close> any tree value. When
  \<open>b\<close> is neither \<open>null\<close> nor a \<open>RouteSegment\<close> it has no \<open>_type\<close>; \<open>a._type\<close> is a type or
  \<open>null\<close>, never \<open>undefined\<close>, so \<open>a._type !== b._type\<close> holds and the answer is \<open>false\<close>.
  Likewise for \<open>equalUrlSegments\<close> and \<open>segment\<close>.
\<close>

fun equalSegments_any :: "RouteSegment \<Rightarrow> 'a tvalue \<Rightarrow> error + bool" where
  "equalSegments_any a VNull = equalSegments (Some a) None"
| "equalSegments_any a (VRoute b) = equalSegments (Some a) (Some b)"
| "equalSegments_any a _ = Inr False"

fun equalUrlSegments_any :: "UrlSegment \<Rightarrow> 'a tvalue \<Rightarrow> error + bool" where
  "equalUrlSegments_any a VNull = equalUrlSegments (Some a) None"
| "equalUrlSegments_any a (VUrl b) = equalUrlSegments (Some a) (Some b)"
| "equalUrlSegments_any a _ = Inr False"

text \<open>
  \<^verbatim>\<open>
  function _equalValues(a: any, b: any): boolean {
    if (a instanceof RouteSegment) return equalSegments(<any>a, <any>b);
    if (a instanceof UrlSegment) return equalUrlSegments(<any>a, <any>b);
    return a === b;
  }
  \<close>
\<close>

fun equalValues :: "'a tvalue \<Rightarrow> 'a tvalue \<Rightarrow> error + bool" where
  "equalValues (VRoute a) b = equalSegments_any a b"
| "equalValues (VUrl a) b = equalUrlSegments_any a b"
| "equalValues a b = Inr (strict_eq a b)"

subsection \<open>Searching a tree\<close>

text \<open>
  \<^verbatim>\<open>
  function _findNode<T>(expected: T, c: TreeNode<T>): TreeNode<T> {
    if (expected instanceof RouteSegment && equalSegments(<any>expected, <any>c.value)) return c;
    if (expected === c.value) return c;
    for (let cc of c.children) {
      let r = _findNode(expected, cc);
      if (isPresent(r)) return r;
    }
    return null;
  }
  \<close>
  \<open>nodeMatches\<close> is the test of the first two lines; only a \<open>RouteSegment\<close> is compared
  structurally, every other value by \<open>===\<close>. \<open>findNode_children\<close> is the loop.
\<close>

fun nodeMatches :: "'a tvalue \<Rightarrow> 'a tvalue \<Rightarrow> error + bool" where
  "nodeMatches (VRoute a) v =
     (case equalSegments_any a v of
        Inl e \<Rightarrow> Inl e
      | Inr True \<Rightarrow> Inr True
      | Inr False \<Rightarrow> Inr (strict_eq (VRoute a) v))"
| "nodeMatches expected v = Inr (strict_eq expected v)"

fun findNode :: "'a tvalue \<Rightarrow> 'a TreeNode \<Rightarrow> error + 'a TreeNode option"
  and findNode_children :: "'a tvalue \<Rightarrow> 'a TreeNode list \<Rightarrow> error + 'a TreeNode option" where
  "findNode expected (TreeNode v cs) =
     (case nodeMatches expected v of
        Inl e \<Rightarrow> Inl e
      | Inr True \<Rightarrow> Inr (Some (TreeNode v cs))
      | Inr False \<Rightarrow> findNode_children expected cs)"
| "findNode_children expected [] = Inr None"
| "findNode_children expected (cc # ccs) =
     (case findNode expected cc of
        Inl e \<Rightarrow> Inl e
      | Inr (Some r) \<Rightarrow> Inr (Some r)
      | Inr None \<Rightarrow> findNode_children expected ccs)"

text \<open>
  \<^verbatim>\<open>
  function _findPath<T>(expected: T, c: TreeNode<T>, collected: TreeNode<T>[]): TreeNode<T>[] {
    collected.push(c);
    if (_equalValues(expected, c.value)) return collected;
    for (let cc of c.children) {
      let r = _findPath(expected, cc, ListWrapper.clone(collected));
      if (isPresent(r)) return r;
    }
    return null;
  }
  \<close>
  Every recursive call gets a copy of \<open>collected\<close>, so the \<open>push\<close> is seen by no caller:
  the list is passed by value.
\<close>

fun findPath :: "'a tvalue \<Rightarrow> 'a TreeNode \<Rightarrow> 'a TreeNode list \<Rightarrow> error + 'a TreeNode list option"
  and findPath_children :: "'a tvalue \<Rightarrow> 'a TreeNode list \<Rightarrow> 'a TreeNode list \<Rightarrow> error + 'a TreeNode list option" where
  "findPath expected (TreeNode v cs) collected =
     (case equalValues expected v of
        Inl e \<Rightarrow> Inl e
      | Inr True \<Rightarrow> Inr (Some (collected @ [TreeNode v cs]))
      | Inr False \<Rightarrow> findPath_children expected cs (collected @ [TreeNode v cs]))"
| "findPath_children expected [] collected = Inr None"
| "findPath_children expected (cc # ccs) collected =
     (case findPath expected cc collected of
        Inl e \<Rightarrow> Inl e
      | Inr (Some r) \<Rightarrow> Inr (Some r)
      | Inr None \<Rightarrow> findPath_children expected ccs collected)"

text \<open>
  \<open>tree.children.filter(child => _equalValues(child.value, subtreeNode.value))\<close>: the
  predicate is evaluated on every child in order, and an exception leaves the filter.
\<close>

fun filter_equal :: "'a tvalue \<Rightarrow> 'a TreeNode list \<Rightarrow> error + 'a TreeNode list" where
  "filter_equal w [] = Inr []"
| "filter_equal w (child # rest) =
     (case equalValues (val child) w of
        Inl e \<Rightarrow> Inl e
      | Inr keep \<Rightarrow>
          (case filter_equal w rest of
             Inl e \<Rightarrow> Inl e
           | Inr s \<Rightarrow> Inr (if keep then child # s else s)))"

text \<open>
  \<^verbatim>\<open>
  function _contains<T>(tree: TreeNode<T>, subtree: TreeNode<T>): boolean {
    if (!_equalValues(tree.value, subtree.value)) return false;
    for (let subtreeNode of subtree.children) {
      let s = tree.children.filter(child => _equalValues(child.value, subtreeNode.value));
      if (s.length === 0) return false;
      if (!_contains(s[0], subtreeNode)) return false;
    }
    return true;
  }
  \<close>
  \<open>contains_children\<close> is the loop over \<open>subtree.children\<close>.
\<close>

fun contains :: "'a TreeNode \<Rightarrow> 'a TreeNode \<Rightarrow> error + bool"
  and contains_children :: "'a TreeNode list \<Rightarrow> 'a TreeNode list \<Rightarrow> error + bool" where
  "contains tree (TreeNode w scs) =
     (case equalValues (val tree) w of
        Inl e \<Rightarrow> Inl e
      | Inr False \<Rightarrow> Inr False
      | Inr True \<Rightarrow> contains_children (children tree) scs)"
| "contains_children tcs [] = Inr True"
| "contains_children tcs (subtreeNode # rest) =
     (case filter_equal (val subtreeNode) tcs of
        Inl e \<Rightarrow> Inl e
      | Inr [] \<Rightarrow> Inr False
      | Inr (s0 # _) \<Rightarrow>
          (case contains s0 subtreeNode of
             Inl e \<Rightarrow> Inl e
           | Inr False \<Rightarrow> Inr False
           | Inr True \<Rightarrow> contains_children tcs rest))"

subsection \<open>The methods of Tree\<close>

text \<open>
  \<^verbatim>\<open>
  get root(): T { return this._root.value; }
  parent(t: T): T {
    let p = this.pathFromRoot(t);
    return p.length > 1 ? p[p.length - 2] : null;
  }
  children(t: T): T[] {
    let n = _findNode(t, this._root);
    return isPresent(n) ? n.children.map(t => t.value) : null;
  }
  firstChild(t: T): T {
    let n = _findNode(t, this._root);
    return isPresent(n) && n.children.length > 0 ? n.children[0].value : null;
  }
  pathFromRoot(t: T): T[] { return _findPath(t, this._root, []).map(s => s.value); }
  contains(tree: Tree<T>): boolean { return _contains(this._root, tree._root); }
  \<close>
  \<open>pathFromRoot\<close> calls \<open>map\<close> on what \<open>_findPath\<close> returns; on \<open>null\<close> that call throws.
  A \<open>null\<close> result of a method is \<open>None\<close>.
\<close>

definition Tree_root :: "'a Tree \<Rightarrow> 'a tvalue" where
  "Tree_root this = val (root_node this)"

definition Tree_pathFromRoot :: "'a Tree \<Rightarrow> 'a tvalue \<Rightarrow> error + 'a tvalue list" where
  "Tree_pathFromRoot this t =
     (case findPath t (root_node this) [] of
        Inl e \<Rightarrow> Inl e
      | Inr None \<Rightarrow> Inl TypeError
      | Inr (Some p) \<Rightarrow> Inr (map val p))"

definition Tree_parent :: "'a Tree \<Rightarrow> 'a tvalue \<Rightarrow> error + 'a tvalue option" where
  "Tree_parent this t =
     (case Tree_pathFromRoot this t of
        Inl e \<Rightarrow> Inl e
      | Inr p \<Rightarrow> Inr (if length p > 1 then Some (p ! (length p - 2)) else None))"

definition Tree_children :: "'a Tree \<Rightarrow> 'a tvalue \<Rightarrow> error + 'a tvalue list option" where
  "Tree_children this t =
     (case findNode t (root_node this) of
        Inl e \<Rightarrow> Inl e
      | Inr n \<Rightarrow> Inr (if isPresent n then Some (map val (children (the n))) else None))"

definition Tree_firstChild :: "'a Tree \<Rightarrow> 'a tvalue \<Rightarrow> error + 'a tvalue option" where
  "Tree_firstChild this t =
     (case findNode t (root_node this) of
        Inl e \<Rightarrow> Inl e
      | Inr n \<Rightarrow> Inr (if isPresent n \<and> length (children (the n)) > 0
                      then Some (val (children (the n) ! 0)) else None))"

definition Tree_contains :: "'a Tree \<Rightarrow> 'a Tree \<Rightarrow> error + bool" where
  "Tree_contains this tree = contains (root_node this) (root_node tree)"

section \<open>The link function and the URL serializer\<close>

text \<open>
  link.ts and router_url_serializer.ts are not among the sources; link_spec.ts, their test,
  is. The definitions of this section follow the algorithm the spec gives for link (its
  steps are quoted at each definition) and the serialized form it gives for a URL tree.
  Where the spec leaves the outcome of a command list open, \<open>link\<close> returns
  \<open>Inl NotSpecified\<close>; where a lookup of segments.ts throws, it returns \<open>Inl Threw\<close>.
  New objects take their references from a counter \<open>next\<close>, the first unused reference.
\<close>

datatype command = CString string | CNumber int | CParams StringMap

datatype token = Path "string option" string | Params StringMap

datatype link_error = Threw | NotSpecified

text \<open>\<open>new UrlSegment(segment, parameters, outlet)\<close>, allocated at reference \<open>r\<close>.\<close>

definition newUrlSegment :: "nat \<Rightarrow> string \<Rightarrow> StringMap option \<Rightarrow> string option \<Rightarrow> UrlSegment" where
  "newUrlSegment r s p out = \<lparr>UrlSegment.ref = r, segment = s, parameters = p, outlet = out\<rparr>"

text \<open>
  \<open>new RouteSegment(urlSegments, parameters, outlet, type, componentFactory)\<close>, allocated
  at reference \<open>r\<close>.
\<close>

definition newRouteSegment :: "nat \<Rightarrow> UrlSegment list \<Rightarrow> StringMap option \<Rightarrow> string option \<Rightarrow> nat option \<Rightarrow> nat option \<Rightarrow> RouteSegment" where
  "newRouteSegment r us p out t f =
     \<lparr>RouteSegment.ref = r, urlSegments = us, parameters = p, outlet = out, type = t, componentFactory = f\<rparr>"

subsection \<open>Commands\<close>

text \<open>
  Modelled from the spec: "A positional (non-string, non-object) token is stringified and
  treated as a plain path token for the default outlet". The positional values are integers,
  written in decimal.
\<close>

definition digit :: "nat \<Rightarrow> char" where
  "digit d = ''0123456789'' ! d"

function string_of_nat :: "nat \<Rightarrow> string" where
  "string_of_nat n = (if n < 10 then [digit n] else string_of_nat (n div 10) @ [digit (n mod 10)])"
  by pat_completeness auto
termination
  by (relation "measure id") auto

definition stringify :: "int \<Rightarrow> string" where
  "stringify i = (if i < 0 then CHR ''-'' # string_of_nat (nat (- i)) else string_of_nat (nat i))"

text \<open>
  Modelled from the spec: "A plain string token (not containing an outlet prefix) becomes a
  new segment on the current (default) outlet, with outlet=null. A string of the form
  "outletName:token" becomes a new segment whose outlet is outletName".
\<close>

definition pathToken :: "string \<Rightarrow> token" where
  "pathToken s =
     (if CHR '':'' \<in> set s
      then Path (Some (takeWhile (\<lambda>c. c \<noteq> CHR '':'') s)) (drop 1 (dropWhile (\<lambda>c. c \<noteq> CHR '':'') s))
      else Path None s)"

fun toToken :: "command \<Rightarrow> token" where
  "toToken (CString s) = pathToken s"
| "toToken (CNumber n) = pathToken (stringify n)"
| "toToken (CParams m) = Params m"

text \<open>
  Modelled from the spec: the first command decides whether the list is absolute. The spec's
  path-root marker is \<open>"/"\<close>; link_spec.ts passes \<open>"/one"\<close> and \<open>"/a"\<close> for paths from the root,
  so a first string that starts with \<open>/\<close> is absolute and the rest of it is the first
  token. "A command list whose first element is a relative-path token ("./child" or bare
  "child", both treated identically)" is relative. A parameter object in the first place has
  no segment to attach to: the spec leaves it open (\<open>None\<close>).
\<close>

definition restOfFirst :: "string \<Rightarrow> token list" where
  "restOfFirst s = (if s = [] then [] else [pathToken s])"

fun firstCommand :: "command \<Rightarrow> (bool \<times> token list) option" where
  "firstCommand (CString s) =
     (if take 1 s = ''/'' then Some (True, restOfFirst (drop 1 s))
      else if take 2 s = ''./'' then Some (False, restOfFirst (drop 2 s))
      else Some (False, restOfFirst s))"
| "firstCommand (CNumber n) = Some (False, [toToken (CNumber n)])"
| "firstCommand (CParams m) = None"

subsection \<open>Applying the commands below a node\<close>

text \<open>
  Modelled from the spec: "A parameter-object token (mapping) attaches/merges its key-value
  pairs as matrix parameters onto the most recently created segment (replacing any
  same-named existing parameter on update, adding new ones, preserving those not
  mentioned)".
\<close>

fun put :: "string \<Rightarrow> string \<Rightarrow> StringMap \<Rightarrow> StringMap" where
  "put k v [] = [(k, v)]"
| "put k v ((k', v') # m) = (if k = k' then (k, v) # m else (k', v') # put k v m)"

fun merge :: "StringMap \<Rightarrow> StringMap \<Rightarrow> StringMap" where
  "merge existing [] = existing"
| "merge existing ((k, v) # m) = merge (put k v existing) m"

text \<open>
  Modelled from the spec: "Segments destined for different outlets become siblings at the
  point of divergence [...] a commands list that only updates one named outlet leaves all
  other outlet subtrees present at that ancestor completely untouched". At one level of the
  tree a new segment takes the place of the child on its own outlet (\<open>target\<close> splits the
  children around that child); the children on other outlets stay as they are. Below the
  leaves of the current tree there is nothing to replace and the segment is a new node. A
  level that has children but none on the segment's outlet is the spec's "outlet-prefixed
  token for an outlet with no existing branch point": left open.
\<close>

fun onOutlet :: "string option \<Rightarrow> 'a TreeNode \<Rightarrow> bool" where
  "onOutlet out (TreeNode (VUrl u) cs) = (UrlSegment.outlet u = out)"
| "onOutlet out _ = False"

fun target :: "string option \<Rightarrow> 'a TreeNode list \<Rightarrow> ('a TreeNode list \<times> 'a TreeNode \<times> 'a TreeNode list) option" where
  "target out [] = None"
| "target out (c # cs) =
     (if onOutlet out c then Some ([], c, cs)
      else (case target out cs of
              None \<Rightarrow> None
            | Some (before, old, after) \<Rightarrow> Some (c # before, old, after)))"

fun place :: "string option \<Rightarrow> 'a TreeNode list \<Rightarrow> ('a TreeNode list \<times> 'a TreeNode option \<times> 'a TreeNode list) option" where
  "place out [] = Some ([], None, [])"
| "place out cs =
     (case target out cs of
        None \<Rightarrow> None
      | Some (before, old, after) \<Rightarrow> Some (before, Some old, after))"

fun childrenOf :: "'a TreeNode option \<Rightarrow> 'a TreeNode list" where
  "childrenOf None = []"
| "childrenOf (Some n) = children n"

fun existingParameters :: "'a TreeNode option \<Rightarrow> StringMap" where
  "existingParameters (Some (TreeNode (VUrl u) cs)) =
     (case UrlSegment.parameters u of None \<Rightarrow> [] | Some m \<Rightarrow> m)"
| "existingParameters _ = []"

text \<open>
  Modelled from the spec: "Walk the command list left to right, consuming tokens to build an
  ordered sequence of new UrlSegments", each the child of the one before it. A path token
  makes a new segment with no parameters; a parameter object right after it merges into
  "the segment just created, additively over existing parameters", those of the segment it
  replaces. The new segment's children are built from the remaining tokens, below the
  children of the replaced segment; when no token remains the new segment is a leaf. A
  parameter object with no path token before it (in the first place, or after another
  parameter object) is left open by the spec.
\<close>

fun update :: "nat \<Rightarrow> 'a TreeNode list \<Rightarrow> token list \<Rightarrow> link_error + ('a TreeNode list \<times> nat)" where
  "update next cs [] = Inr ([], next)"
| "update next cs (Params m # rest) = Inl NotSpecified"
| "update next cs (Path out s # Params m # rest) =
     (case place out cs of
        None \<Rightarrow> Inl NotSpecified
      | Some (before, old, after) \<Rightarrow>
          (case update (Suc next) (childrenOf old) rest of
             Inl e \<Rightarrow> Inl e
           | Inr (sub, next') \<Rightarrow>
               Inr (before
                    @ [TreeNode (VUrl (newUrlSegment next s (Some (merge (existingParameters old) m)) out)) sub]
                    @ after, next')))"
| "update next cs (Path out s # rest) =
     (case place out cs of
        None \<Rightarrow> Inl NotSpecified
      | Some (before, old, after) \<Rightarrow>
          (case update (Suc next) (childrenOf old) rest of
             Inl e \<Rightarrow> Inl e
           | Inr (sub, next') \<Rightarrow>
               Inr (before @ [TreeNode (VUrl (newUrlSegment next s (Some []) out)) sub] @ after, next')))"

subsection \<open>The anchor\<close>

text \<open>
  Modelled from the spec: "Determine the anchor point in the URL tree corresponding to
  start's position, by finding the UrlSegment in start.urlSegments within the current
  UrlTree (using value equality) and taking its parent path", and "If the anchor
  RouteSegment carries no urlSegments, the algorithm falls back to the nearest ancestor that
  does have URL segments". Of several URL segments of a route segment the last is taken, the
  position the route step has reached. The ancestors are those of \<open>Tree.pathFromRoot\<close>.
\<close>

fun hasUrlSegments :: "'a tvalue \<Rightarrow> bool" where
  "hasUrlSegments (VRoute r) = (urlSegments r \<noteq> [])"
| "hasUrlSegments _ = False"

definition anchorSegment :: "RouteSegment \<Rightarrow> 'a Tree \<Rightarrow> link_error + UrlSegment" where
  "anchorSegment start routeTree =
     (if urlSegments start \<noteq> [] then Inr (last (urlSegments start))
      else (case Tree_pathFromRoot routeTree (VRoute start) of
              Inl e \<Rightarrow> Inl Threw
            | Inr path \<Rightarrow>
                (case List.find hasUrlSegments (rev (butlast path)) of
                   Some (VRoute r) \<Rightarrow> Inr (last (urlSegments r))
                 | _ \<Rightarrow> Inl NotSpecified)))"

text \<open>
  Modelled from the spec: "Construct and return a new Tree<UrlSegment> whose root is
  unchanged from the original (outside an absolute rewrite) and whose path down to the
  modified branch point is newly built while all untouched branches are shared by
  reference". \<open>rebuild\<close> follows the path from the root to the anchor and gives the anchor
  its updated children; every other child on the way is the node it was.
\<close>

fun replaceFirst :: "'a \<Rightarrow> 'a \<Rightarrow> 'a list \<Rightarrow> 'a list" where
  "replaceFirst old new [] = []"
| "replaceFirst old new (c # cs) = (if c = old then new # cs else c # replaceFirst old new cs)"

fun rebuild :: "'a TreeNode list \<Rightarrow> 'a TreeNode \<Rightarrow> 'a TreeNode list \<Rightarrow> 'a TreeNode" where
  "rebuild [] node updated = TreeNode (val node) updated"
| "rebuild (n # ns) node updated =
     TreeNode (val node) (replaceFirst n (rebuild ns n updated) (children node))"

subsection \<open>link\<close>

text \<open>
  Modelled from the spec: "If the command list is empty, return the original UrlTree
  unchanged (identity short-circuit)"; the spec states this for every position and tree, so
  it comes before any lookup. "If the first command is the path-root marker, treat the
  transformation as absolute: discard all ancestor context and rebuild from the tree root.
  Otherwise the transformation is relative to start's anchor: preserve every sibling subtree
  of the anchor untouched, and apply the remaining commands starting at the anchor."
  The tree returned for a non-empty list is a new object, at reference \<open>next\<close>.
\<close>

definition link :: "nat \<Rightarrow> RouteSegment \<Rightarrow> 'a Tree \<Rightarrow> 'a Tree \<Rightarrow> command list \<Rightarrow> link_error + 'a Tree" where
  "link next start routeTree urlTree commands =
     (case commands of
        [] \<Rightarrow> Inr urlTree
      | c # cs \<Rightarrow>
          (case firstCommand c of
             None \<Rightarrow> Inl NotSpecified
           | Some (absolute, ts) \<Rightarrow>
               if absolute
               then (case update (Suc next) (children (root_node urlTree)) (ts @ map toToken cs) of
                       Inl e \<Rightarrow> Inl e
                     | Inr (updated, _) \<Rightarrow>
                         Inr \<lparr>Tree.ref = next, root_node = TreeNode (val (root_node urlTree)) updated\<rparr>)
               else (case anchorSegment start routeTree of
                       Inl e \<Rightarrow> Inl e
                     | Inr seg \<Rightarrow>
                         (case findPath (VUrl seg) (root_node urlTree) [] of
                            Inl e \<Rightarrow> Inl Threw
                          | Inr None \<Rightarrow> Inl NotSpecified
                          | Inr (Some path) \<Rightarrow>
                              (case update (Suc next) (children (last path)) (ts @ map toToken cs) of
                                 Inl e \<Rightarrow> Inl e
                               | Inr (updated, _) \<Rightarrow>
                                   Inr \<lparr>Tree.ref = next,
                                        root_node = rebuild (tl path) (root_node urlTree) updated\<rparr>)))))"

subsection \<open>Serializing a URL tree\<close>

text \<open>
  \<^verbatim>\<open>
  toString(): string {
    let outletPrefix = isBlank(this.outlet) ? "" : `${this.outlet}:`;
    return `${outletPrefix}${this.segment}${_serializeParams(this.parameters)}`;
  }
  function _serializeParams(params: {[key: string]: string}): string {
    let res = "";
    StringMapWrapper.forEach(params, (v, k) => res += `;${k}=${v}`);
    return res;
  }
  \<close>
  These two are in segments.ts. \<open>StringMapWrapper.forEach\<close> is not among the sources: it is
  taken to visit the entries in insertion order, and none for an absent map.
\<close>

fun serializeParams :: "StringMap \<Rightarrow> string" where
  "serializeParams [] = []"
| "serializeParams ((k, v) # params) = '';'' @ k @ ''='' @ v @ serializeParams params"

definition UrlSegment_toString :: "UrlSegment \<Rightarrow> string" where
  "UrlSegment_toString this =
     (let outletPrefix = (case UrlSegment.outlet this of None \<Rightarrow> [] | Some out \<Rightarrow> out @ '':'')
      in outletPrefix @ segment this
         @ serializeParams (case UrlSegment.parameters this of None \<Rightarrow> [] | Some m \<Rightarrow> m))"

text \<open>
  Modelled from the spec: the serializer (\<open>DefaultRouterUrlSerializer.serialize\<close>) is not
  among the sources. The spec: a tree is rendered as
  \<open>outlet:segment;k1=v1;k2=v2/child.../(auxOutlet:segment...)\<close>; "Auxiliary (non-primary)
  outlet children are rendered in parentheses, separated by commas, when a node has multiple
  children", and the primary child comes first. So the children of a node are written as
  \<open>/\<close>, the first child, the other children in parentheses, and then the children of the
  first child. The root segment is the empty string.
\<close>

fun valueString :: "'a tvalue \<Rightarrow> string" where
  "valueString (VUrl u) = UrlSegment_toString u"
| "valueString _ = []"

fun join :: "string \<Rightarrow> string list \<Rightarrow> string" where
  "join sep [] = []"
| "join sep [s] = s"
| "join sep (s # ss) = s @ sep @ join sep ss"

fun serializeNode :: "'a TreeNode \<Rightarrow> string"
  and serializeNodes :: "'a TreeNode list \<Rightarrow> string" where
  "serializeNode (TreeNode v cs) = valueString v @ serializeNodes cs"
| "serializeNodes [] = []"
| "serializeNodes (TreeNode v cs # aux) =
     ''/'' @ valueString v
     @ (if aux = [] then [] else ''('' @ join '','' (map serializeNode aux) @ '')'')
     @ serializeNodes cs"

definition serialize :: "'a Tree \<Rightarrow> string" where
  "serialize tree = serializeNode (root_node tree)"

section \<open>Notions used to state the properties\<close>

text \<open>The nodes of a tree in pre-order: the node, then its children from left to right.\<close>

fun preorder :: "'a TreeNode \<Rightarrow> 'a TreeNode list" where
  "preorder (TreeNode v cs) = TreeNode v cs # concat (map preorder cs)"

text \<open>
  A linear search of a list of nodes with the comparison of \<open>_findNode\<close>: it stops at the
  first node where the comparison does not answer \<open>false\<close>, with that node when the answer
  is \<open>true\<close> and with the exception when the comparison throws; \<open>null\<close> when no node is left.
\<close>

fun firstMatch :: "'a tvalue \<Rightarrow> 'a TreeNode list \<Rightarrow> error + 'a TreeNode option" where
  "firstMatch t [] = Inr None"
| "firstMatch t (n # ns) =
     (case nodeMatches t (val n) of
        Inl e \<Rightarrow> Inl e
      | Inr True \<Rightarrow> Inr (Some n)
      | Inr False \<Rightarrow> firstMatch t ns)"

text \<open>
  No two of the siblings \<open>cs\<close> carry equal values, and each value is equal to itself;
  \<open>unambiguous\<close> says so of the children of every node.
\<close>

fun siblings_distinct :: "'a TreeNode list \<Rightarrow> bool" where
  "siblings_distinct [] = True"
| "siblings_distinct (c # cs) =
     (equalValues (val c) (val c) = Inr True
      \<and> list_all (\<lambda>d. equalValues (val c) (val d) = Inr False \<and> equalValues (val d) (val c) = Inr False) cs
      \<and> siblings_distinct cs)"

fun unambiguous :: "'a TreeNode \<Rightarrow> bool" where
  "unambiguous (TreeNode v cs) = (siblings_distinct cs \<and> list_all unambiguous cs)"

text \<open>
  Containment as the spec words it: "current node values must be equal; for every child of
  other's current node, some child of the current tree node must be value-equal AND
  recursively contain that child's subtree". Any matching child will do.
\<close>

fun embeddable :: "'a TreeNode \<Rightarrow> 'a TreeNode \<Rightarrow> bool" where
  "embeddable tree (TreeNode w scs) =
     (equalValues (val tree) w = Inr True
      \<and> list_all (\<lambda>sc. list_ex (\<lambda>c. embeddable c sc) (children tree)) scs)"

section \<open>Example trees\<close>

text \<open>
  Modelled from the spec: the URL parser is not among the sources. These are the trees it
  returns in link_spec.ts, read off the serialized form: the root is the empty segment, a
  path is a chain of first children, and a segment in parentheses is a sibling of the
  segment before it, on the outlet \<open>aux\<close>.
\<close>

definition seg_root :: UrlSegment where "seg_root = newUrlSegment 0 [] (Some []) None"
definition seg_a :: UrlSegment where "seg_a = newUrlSegment 1 ''a'' (Some []) None"
definition seg_11 :: UrlSegment where "seg_11 = newUrlSegment 2 ''11'' (Some []) None"
definition seg_b :: UrlSegment where "seg_b = newUrlSegment 3 ''b'' (Some []) None"
definition seg_c :: UrlSegment where "seg_c = newUrlSegment 4 ''c'' (Some []) (Some ''aux'')"

text \<open>\<open>parser.parse("/")\<close>, \<open>parser.parse("/a/b")\<close> and \<open>parser.parse("/a/11/b(c)")\<close>.\<close>

definition url_root :: "'a Tree" where
  "url_root = \<lparr>Tree.ref = 100, root_node = TreeNode (VUrl seg_root) []\<rparr>"

definition url_a_b :: "'a Tree" where
  "url_a_b = \<lparr>Tree.ref = 100, root_node =
     TreeNode (VUrl seg_root) [TreeNode (VUrl seg_a) [TreeNode (VUrl seg_b) []]]\<rparr>"

definition url_a_11_b_c :: "'a Tree" where
  "url_a_11_b_c = \<lparr>Tree.ref = 100, root_node =
     TreeNode (VUrl seg_root) [TreeNode (VUrl seg_a) [TreeNode (VUrl seg_11)
       [TreeNode (VUrl seg_b) [], TreeNode (VUrl seg_c) []]]]\<rparr>"

text \<open>\<open>parser.parse("/a;aa=11")\<close>.\<close>

definition seg_a_aa :: UrlSegment where "seg_a_aa = newUrlSegment 1 ''a'' (Some [(''aa'', ''11'')]) None"

definition url_a_aa :: "'a Tree" where
  "url_a_aa = \<lparr>Tree.ref = 100, root_node = TreeNode (VUrl seg_root) [TreeNode (VUrl seg_a_aa) []]\<rparr>"

text \<open>\<open>parser.parse("/a(ap)/c(cp)")\<close>.\<close>

definition seg_ap :: UrlSegment where "seg_ap = newUrlSegment 2 ''ap'' (Some []) (Some ''aux'')"
definition seg_c_main :: UrlSegment where "seg_c_main = newUrlSegment 3 ''c'' (Some []) None"
definition seg_cp :: UrlSegment where "seg_cp = newUrlSegment 4 ''cp'' (Some []) (Some ''aux'')"

definition url_a_ap_c_cp :: "'a Tree" where
  "url_a_ap_c_cp = \<lparr>Tree.ref = 100, root_node =
     TreeNode (VUrl seg_root)
       [TreeNode (VUrl seg_a) [TreeNode (VUrl seg_c_main) [], TreeNode (VUrl seg_cp) []],
        TreeNode (VUrl seg_ap) []]\<rparr>"

text \<open>
  \<^verbatim>\<open>
  function s(u: UrlSegment): RouteTree {
    let root = new TreeNode<RouteSegment>(new RouteSegment([u], {}, null, null, null), []);
    return new RouteTree(root);
  }
  \<close>
  The helper of link_spec.ts: \<open>route_of u\<close> is the route segment and \<open>routeTreeOf u\<close> the tree.
\<close>

definition route_of :: "UrlSegment \<Rightarrow> RouteSegment" where
  "route_of u = newRouteSegment 51 [u] (Some []) None None None"

definition routeTreeOf :: "UrlSegment \<Rightarrow> 'a Tree" where
  "routeTreeOf u = \<lparr>Tree.ref = 50, root_node = TreeNode (VRoute (route_of u)) []\<rparr>"

text \<open>
  A segment that is in none of the trees, and a second object with the contents of
  \<open>seg_a\<close>.
\<close>

definition seg_x :: UrlSegment where "seg_x = newUrlSegment 5 ''x'' (Some []) None"
definition seg_a_copy :: UrlSegment where "seg_a_copy = newUrlSegment 6 ''a'' (Some []) None"

text \<open>
  A tree with two children of equal value below the root, the second of which has a child,
  and the tree made of the root, that second child and its child.
\<close>

definition dup_tree :: "'a Tree" where
  "dup_tree = \<lparr>Tree.ref = 101, root_node =
     TreeNode (VUrl seg_root)
       [TreeNode (VUrl seg_a) [], TreeNode (VUrl seg_a_copy) [TreeNode (VUrl seg_b) []]]\<rparr>"

definition dup_subtree :: "'a Tree" where
  "dup_subtree = \<lparr>Tree.ref = 102, root_node =
     TreeNode (VUrl seg_root) [TreeNode (VUrl seg_a_copy) [TreeNode (VUrl seg_b) []]]\<rparr>"

text \<open>Two route segments that differ in their URL segments and in the order of their keys.\<close>

definition route_kj :: RouteSegment where
  "route_kj = newRouteSegment 60 [] (Some [(''k'', ''1''), (''j'', ''2'')]) None (Some 7) None"

definition route_jk :: RouteSegment where
  "route_jk = newRouteSegment 61 [seg_a] (Some [(''j'', ''2''), (''k'', ''1'')]) None (Some 7) None"

definition seg_kj :: UrlSegment where
  "seg_kj = newUrlSegment 62 ''a'' (Some [(''k'', ''1''), (''j'', ''2'')]) (Some ''aux'')"

definition seg_jk :: UrlSegment where
  "seg_jk = newUrlSegment 63 ''a'' (Some [(''j'', ''2''), (''k'', ''1'')]) (Some ''aux'')"

text \<open>
  \<open>new RouteSegment([], null, null, null, null)\<close>, the \<open>child\<close> of link_spec.ts, a second
  route segment without a parameter map that differs from it in the URL segments only, and
  the route tree of that test: the root \<open>new RouteSegment([c], {}, null, null, null)\<close> for
  the segment \<open>a\<close>, with \<open>child\<close> below it.
\<close>

definition route_no_params :: RouteSegment where
  "route_no_params = newRouteSegment 64 [] None None None None"

definition route_no_params_url :: RouteSegment where
  "route_no_params_url = newRouteSegment 65 [seg_a] None None None None"

definition route_tree_with_child :: "'a Tree" where
  "route_tree_with_child = \<lparr>Tree.ref = 52, root_node =
     TreeNode (VRoute (route_of seg_a)) [TreeNode (VRoute route_no_params) []]\<rparr>"

section \<open>Properties\<close>

subsection \<open>Unfolding the examples and the methods\<close>

lemmas example_defs =
  newUrlSegment_def newRouteSegment_def seg_root_def seg_a_def seg_11_def seg_b_def seg_c_def
  seg_a_aa_def seg_ap_def seg_c_main_def seg_cp_def seg_x_def seg_a_copy_def
  url_root_def url_a_b_def url_a_11_b_c_def url_a_aa_def url_a_ap_c_cp_def
  dup_tree_def dup_subtree_def route_of_def routeTreeOf_def
  route_kj_def route_jk_def seg_kj_def seg_jk_def route_no_params_def
  route_no_params_url_def route_tree_with_child_def

lemmas method_defs =
  equalUrlSegments_def equalSegments_def isBlank_def isPresent_def
  Tree_pathFromRoot_def Tree_parent_def Tree_children_def Tree_firstChild_def
  Tree_contains_def Tree_root_def

lemmas link_defs =
  link_def anchorSegment_def firstCommand.simps restOfFirst_def pathToken_def stringify_def
  digit_def serialize_def UrlSegment_toString_def

subsection \<open>Helper lemmas: equality of values\<close>

text \<open>With exactly one argument \<open>null\<close> the guards of both functions answer \<open>false\<close>.\<close>

lemma equalSegments_one_null:
  "equalSegments None (Some b) = Inr False" "equalSegments (Some a) None = Inr False"
  by (simp_all add: equalSegments_def isBlank_def)

lemma equalUrlSegments_one_null:
  "equalUrlSegments None (Some b) = Inr False" "equalUrlSegments (Some a) None = Inr False"
  by (simp_all add: equalUrlSegments_def isBlank_def)

text \<open>\<open>equalUrlSegments\<close> writes to the console only when a parameter map is absent.\<close>

lemma equalUrlSegments_console_silent:
  "UrlSegment.parameters a \<noteq> None \<Longrightarrow> UrlSegment.parameters b \<noteq> None \<Longrightarrow>
     equalUrlSegments_console (Some a) (Some b) = []"
  by (auto simp: equalUrlSegments_console_def isBlank_def)

text \<open>
  \<open>equalSegments\<close> on route segments that have their parameter maps: same type, same outlet
  and the same set of key/value pairs; the \<open>urlSegments\<close> are not compared.
\<close>

lemma equalSegments_with_parameter_maps:
  "(RouteSegment.parameters a = Some pa \<and> RouteSegment.parameters b = Some pb \<longrightarrow>
      equalSegments (Some a) (Some b) =
        Inr (type a = type b \<and> RouteSegment.outlet a = RouteSegment.outlet b \<and> set pa = set pb))
   \<and> (type a \<noteq> type b \<or> RouteSegment.outlet a \<noteq> RouteSegment.outlet b \<longrightarrow>
        equalSegments (Some a) (Some b) = Inr False)
   \<and> equalSegments (Some (a\<lparr>urlSegments := us\<rparr>)) (Some (b\<lparr>urlSegments := us'\<rparr>)) =
       equalSegments (Some a) (Some b)"
  by (auto simp: equalSegments_def isBlank_def)

lemma equalSegments_with_parameter_maps_example:
  "urlSegments route_kj \<noteq> urlSegments route_jk
   \<and> equalSegments (Some route_kj) (Some route_jk) = Inr True"
  by (auto simp: example_defs equalSegments_def isBlank_def)

text \<open>Every value is equal to itself, provided a segment has its parameter map.\<close>

lemma equalValues_refl:
  "equalValues (VNull :: 'a tvalue) VNull = Inr True"
  "equalValues (VOther y) (VOther y) = Inr True"
  "UrlSegment.parameters u \<noteq> None \<Longrightarrow> equalValues (VUrl u) (VUrl u) = Inr True"
  "RouteSegment.parameters r \<noteq> None \<Longrightarrow> equalValues (VRoute r) (VRoute r) = Inr True"
  by (auto simp: equalUrlSegments_def equalSegments_def isBlank_def)

subsection \<open>Helper lemmas: searching\<close>

lemma not_TypeError_iff: "(r :: error + 'b) \<noteq> Inl TypeError \<longleftrightarrow> (\<exists>b. r = Inr b)"
proof (cases r)
  case (Inl e)
  then show ?thesis by (cases e) simp
next
  case (Inr b)
  then show ?thesis by simp
qed

lemma find_append_first:
  "List.find P (xs @ ys) = (case List.find P xs of None \<Rightarrow> List.find P ys | Some x \<Rightarrow> Some x)"
  by (induction xs) auto

lemma findNode_is_preorder_find:
  "(\<forall>n\<in>set (preorder c). nodeMatches expected (val n) \<noteq> Inl TypeError) \<longrightarrow>
     findNode expected c = Inr (List.find (\<lambda>n. nodeMatches expected (val n) = Inr True) (preorder c))"
  "(\<forall>n\<in>set (concat (map preorder cs)). nodeMatches expected (val n) \<noteq> Inl TypeError) \<longrightarrow>
     findNode_children expected cs =
       Inr (List.find (\<lambda>n. nodeMatches expected (val n) = Inr True) (concat (map preorder cs)))"
proof (induction expected c and expected cs rule: findNode_findNode_children.induct)
  case (1 expected v cs)
  show ?case
  proof
    assume h: "\<forall>n\<in>set (preorder (TreeNode v cs)). nodeMatches expected (val n) \<noteq> Inl TypeError"
    then have "nodeMatches expected v \<noteq> Inl TypeError" by simp
    then obtain b where b: "nodeMatches expected v = Inr b" by (auto simp: not_TypeError_iff)
    show "findNode expected (TreeNode v cs) =
      Inr (List.find (\<lambda>n. nodeMatches expected (val n) = Inr True) (preorder (TreeNode v cs)))"
    proof (cases b)
      case True
      with b show ?thesis by simp
    next
      case False
      with b h "1.IH" show ?thesis by simp
    qed
  qed
next
  case (2 expected)
  show ?case by simp
next
  case (3 expected cc ccs)
  show ?case
  proof
    assume h: "\<forall>n\<in>set (concat (map preorder (cc # ccs))). nodeMatches expected (val n) \<noteq> Inl TypeError"
    then have h1: "\<forall>n\<in>set (preorder cc). nodeMatches expected (val n) \<noteq> Inl TypeError"
      and h2: "\<forall>n\<in>set (concat (map preorder ccs)). nodeMatches expected (val n) \<noteq> Inl TypeError"
      by auto
    from h1 "3.IH"(1)
    have f1: "findNode expected cc =
        Inr (List.find (\<lambda>n. nodeMatches expected (val n) = Inr True) (preorder cc))"
      by blast
    show "findNode_children expected (cc # ccs) =
       Inr (List.find (\<lambda>n. nodeMatches expected (val n) = Inr True) (concat (map preorder (cc # ccs))))"
    proof (cases "List.find (\<lambda>n. nodeMatches expected (val n) = Inr True) (preorder cc)")
      case None
      with f1 h2 "3.IH"(2) show ?thesis by (simp add: find_append_first)
    next
      case (Some r)
      with f1 show ?thesis by (simp add: find_append_first)
    qed
  qed
qed

text \<open>\<open>_findNode\<close> is the linear search of the nodes in pre-order, exceptions included.\<close>

lemma firstMatch_append:
  "firstMatch t (xs @ ys) =
     (case firstMatch t xs of Inl e \<Rightarrow> Inl e | Inr (Some n) \<Rightarrow> Inr (Some n) | Inr None \<Rightarrow> firstMatch t ys)"
  by (induction xs) (auto split: sum.splits bool.splits)

lemma findNode_is_firstMatch:
  "findNode expected c = firstMatch expected (preorder c)"
  "findNode_children expected cs = firstMatch expected (concat (map preorder cs))"
proof (induction expected c and expected cs rule: findNode_findNode_children.induct)
  case (1 expected v cs)
  then show ?case by (simp split: sum.splits bool.splits)
next
  case (2 expected)
  show ?case by simp
next
  case (3 expected cc ccs)
  then show ?case by (simp add: firstMatch_append split: sum.splits option.splits)
qed

text \<open>A value that is not a \<open>RouteSegment\<close> is searched for by identity, and nothing throws.\<close>

lemma firstMatch_by_identity:
  "\<forall>x. nodeMatches t x = Inr (strict_eq t x) \<Longrightarrow>
     firstMatch t ns = Inr (List.find (\<lambda>n. strict_eq t (val n)) ns)"
  by (induction ns) simp_all

lemma nodeMatches_not_route:
  "nodeMatches (VUrl u) x = Inr (strict_eq (VUrl u) x)"
  "nodeMatches (VOther y) x = Inr (strict_eq (VOther y) x)"
  "nodeMatches VNull x = Inr (strict_eq VNull x)"
  by simp_all

lemma nodeMatches_route:
  "nodeMatches (VRoute a) x =
     (case equalSegments_any a x of Inl e \<Rightarrow> Inl e | Inr r \<Rightarrow> Inr (r \<or> strict_eq (VRoute a) x))"
  by (simp split: sum.splits bool.splits)

text \<open>
  A value that is \<open>_equalValues\<close>-equal to the value of no node: \<open>_findPath\<close> returns \<open>null\<close>.
\<close>

lemma findPath_absent:
  "(\<forall>n\<in>set (preorder c). equalValues expected (val n) = Inr False) \<longrightarrow>
     findPath expected c collected = Inr None"
  "(\<forall>n\<in>set (concat (map preorder cs)). equalValues expected (val n) = Inr False) \<longrightarrow>
     findPath_children expected cs collected = Inr None"
  by (induction expected c collected and expected cs collected rule: findPath_findPath_children.induct)
     auto

lemma pathFromRoot_absent_throws:
  assumes "\<forall>n\<in>set (preorder (root_node T)). equalValues t (val n) = Inr False"
  shows "Tree_pathFromRoot T t = Inl TypeError" and "Tree_parent T t = Inl TypeError"
  using assms findPath_absent(1)[of "root_node T" t "[]"]
  by (simp_all add: Tree_pathFromRoot_def Tree_parent_def)

lemma children_absent_null:
  assumes "\<forall>n\<in>set (preorder (root_node T)). nodeMatches t (val n) = Inr False"
  shows "Tree_children T t = Inr None" and "Tree_firstChild T t = Inr None"
proof -
  from assms have "\<forall>n\<in>set (preorder (root_node T)). nodeMatches t (val n) \<noteq> Inl TypeError"
    by simp
  with findNode_is_preorder_find(1)[of "root_node T" t]
  have "findNode t (root_node T) =
          Inr (List.find (\<lambda>n. nodeMatches t (val n) = Inr True) (preorder (root_node T)))"
    by blast
  moreover from assms
  have "List.find (\<lambda>n. nodeMatches t (val n) = Inr True) (preorder (root_node T)) = None"
    by (simp add: find_None_iff)
  ultimately have "findNode t (root_node T) = Inr None" by simp
  then show "Tree_children T t = Inr None" and "Tree_firstChild T t = Inr None"
    by (simp_all add: Tree_children_def Tree_firstChild_def isPresent_def)
qed

subsection \<open>Helper lemmas: containment\<close>

lemma filter_equal_none:
  "(\<forall>e\<in>set cs. equalValues (val e) w = Inr False) \<Longrightarrow> filter_equal w cs = Inr []"
  by (induction cs) auto

lemma filter_equal_single:
  "siblings_distinct cs \<Longrightarrow> c \<in> set cs \<Longrightarrow> filter_equal (val c) cs = Inr [c]"
proof (induction cs)
  case Nil
  then show ?case by simp
next
  case (Cons d ds)
  show ?case
  proof (cases "c = d")
    case True
    from Cons.prems(1) have "\<forall>e\<in>set ds. equalValues (val e) (val d) = Inr False"
      by (simp add: list_all_iff)
    then have "filter_equal (val d) ds = Inr []" by (rule filter_equal_none)
    with Cons.prems(1) True show ?thesis by simp
  next
    case False
    with Cons.prems have in_ds: "c \<in> set ds" by simp
    with Cons.prems(1) have "equalValues (val d) (val c) = Inr False"
      by (simp add: list_all_iff)
    moreover from Cons.IH Cons.prems(1) in_ds have "filter_equal (val c) ds = Inr [c]" by simp
    ultimately show ?thesis by simp
  qed
qed

lemma siblings_distinct_self:
  "siblings_distinct cs \<Longrightarrow> c \<in> set cs \<Longrightarrow> equalValues (val c) (val c) = Inr True"
  by (induction cs) auto

lemma contains_children_self:
  "siblings_distinct tcs \<Longrightarrow> set scs \<subseteq> set tcs \<Longrightarrow> (\<forall>c\<in>set scs. contains c c = Inr True) \<Longrightarrow>
     contains_children tcs scs = Inr True"
proof (induction scs)
  case Nil
  then show ?case by simp
next
  case (Cons sc rest)
  from Cons.prems have "filter_equal (val sc) tcs = Inr [sc]"
    by (simp add: filter_equal_single)
  moreover from Cons.prems have "contains sc sc = Inr True" by simp
  moreover from Cons have "contains_children tcs rest = Inr True" by simp
  ultimately show ?case by simp
qed

lemma contains_self:
  "equalValues (val t) (val t) = Inr True \<Longrightarrow> unambiguous t \<Longrightarrow> contains t t = Inr True"
proof (induction t)
  case (TreeNode v cs)
  from TreeNode.prems have sd: "siblings_distinct cs" and un: "\<forall>c\<in>set cs. unambiguous c"
    by (simp_all add: list_all_iff)
  have "\<forall>c\<in>set cs. contains c c = Inr True"
  proof
    fix c assume c: "c \<in> set cs"
    from sd c have "equalValues (val c) (val c) = Inr True" by (rule siblings_distinct_self)
    with TreeNode.IH c un show "contains c c = Inr True" by simp
  qed
  with sd have "contains_children cs cs = Inr True"
    by (simp add: contains_children_self)
  with TreeNode.prems(1) show ?case by simp
qed

lemma filter_equal_subset:
  "filter_equal w cs = Inr s \<Longrightarrow> set s \<subseteq> set cs"
  by (induction cs arbitrary: s) (auto split: sum.splits if_splits)

text \<open>The first element the filter keeps is the first child with an equal value.\<close>

lemma filter_equal_head_is_find:
  "filter_equal w cs = Inr (s0 # s') \<Longrightarrow>
     List.find (\<lambda>c. equalValues (val c) w = Inr True) cs = Some s0"
proof (induction cs arbitrary: s0 s')
  case Nil
  then show ?case by simp
next
  case (Cons c cs)
  from Cons.prems obtain keep s where k: "equalValues (val c) w = Inr keep"
    and s: "filter_equal w cs = Inr s" and r: "s0 # s' = (if keep then c # s else s)"
    by (auto split: sum.splits)
  show ?case
  proof (cases keep)
    case True
    with k r show ?thesis by simp
  next
    case False
    with r s have "filter_equal w cs = Inr (s0 # s')" by simp
    then have "List.find (\<lambda>c. equalValues (val c) w = Inr True) cs = Some s0" by (rule Cons.IH)
    with k False show ?thesis by simp
  qed
qed

lemma contains_children_first_match:
  "contains_children tcs scs = Inr True \<Longrightarrow> sc \<in> set scs \<Longrightarrow>
     \<exists>s0. List.find (\<lambda>c. equalValues (val c) (val sc) = Inr True) tcs = Some s0
          \<and> contains s0 sc = Inr True"
proof (induction scs)
  case Nil
  then show ?case by simp
next
  case (Cons subtreeNode rest)
  from Cons.prems(1) obtain s0 s' where f: "filter_equal (val subtreeNode) tcs = Inr (s0 # s')"
    by (auto split: sum.splits list.splits)
  with Cons.prems(1) have c: "contains s0 subtreeNode = Inr True"
    and r: "contains_children tcs rest = Inr True"
    by (auto split: sum.splits bool.splits)
  show ?case
  proof (cases "sc = subtreeNode")
    case True
    with f c show ?thesis by (auto dest: filter_equal_head_is_find)
  next
    case False
    with Cons.prems(2) have "sc \<in> set rest" by simp
    with r Cons.IH show ?thesis by simp
  qed
qed

lemma contains_first_match:
  assumes "contains tree subtree = Inr True" and "sc \<in> set (children subtree)"
  shows "\<exists>s0. List.find (\<lambda>c. equalValues (val c) (val sc) = Inr True) (children tree) = Some s0
             \<and> contains s0 sc = Inr True"
proof (cases subtree)
  case (TreeNode w scs)
  with assms(1) have "contains_children (children tree) scs = Inr True"
    by (auto split: sum.splits bool.splits)
  moreover from assms(2) TreeNode have "sc \<in> set scs" by simp
  ultimately show ?thesis by (rule contains_children_first_match)
qed

text \<open>
  Conversely, when no comparison throws, equal root values and a first match that contains
  each child of the subtree make \<open>_contains\<close> answer \<open>true\<close>.
\<close>

lemma filter_equal_total:
  "(\<forall>c\<in>set cs. equalValues (val c) w \<noteq> Inl TypeError) \<Longrightarrow>
     filter_equal w cs = Inr (filter (\<lambda>c. equalValues (val c) w = Inr True) cs)"
proof (induction cs)
  case Nil
  then show ?case by simp
next
  case (Cons c cs)
  from Cons.prems have "equalValues (val c) w \<noteq> Inl TypeError" by simp
  then obtain keep where k: "equalValues (val c) w = Inr keep" by (auto simp: not_TypeError_iff)
  from Cons have "filter_equal w cs = Inr (filter (\<lambda>c. equalValues (val c) w = Inr True) cs)"
    by simp
  with k show ?case by simp
qed

lemma find_Some_filter:
  "List.find P xs = Some x \<Longrightarrow> \<exists>ys. filter P xs = x # ys"
  by (induction xs) (auto split: if_splits)

lemma contains_children_complete:
  "(\<forall>c\<in>set tcs. \<forall>sc\<in>set scs. equalValues (val c) (val sc) \<noteq> Inl TypeError) \<Longrightarrow>
   (\<forall>sc\<in>set scs. \<exists>s0. List.find (\<lambda>c. equalValues (val c) (val sc) = Inr True) tcs = Some s0
                         \<and> contains s0 sc = Inr True) \<Longrightarrow>
   contains_children tcs scs = Inr True"
proof (induction scs)
  case Nil
  then show ?case by simp
next
  case (Cons sc rest)
  from Cons.prems(1) have "\<forall>c\<in>set tcs. equalValues (val c) (val sc) \<noteq> Inl TypeError" by simp
  then have f: "filter_equal (val sc) tcs = Inr (filter (\<lambda>c. equalValues (val c) (val sc) = Inr True) tcs)"
    by (rule filter_equal_total)
  from Cons.prems(2) obtain s0 where s0: "List.find (\<lambda>c. equalValues (val c) (val sc) = Inr True) tcs = Some s0"
    and c: "contains s0 sc = Inr True" by auto
  from s0 obtain ys where "filter (\<lambda>c. equalValues (val c) (val sc) = Inr True) tcs = s0 # ys"
    by (auto dest: find_Some_filter)
  with f have f': "filter_equal (val sc) tcs = Inr (s0 # ys)" by simp
  from Cons have "contains_children tcs rest = Inr True" by simp
  with f' c show ?case by simp
qed

lemma contains_complete:
  assumes "\<forall>c\<in>set (children tree). \<forall>sc\<in>set (children subtree). equalValues (val c) (val sc) \<noteq> Inl TypeError"
    and "equalValues (val tree) (val subtree) = Inr True"
    and "\<forall>sc\<in>set (children subtree).
           \<exists>s0. List.find (\<lambda>c. equalValues (val c) (val sc) = Inr True) (children tree) = Some s0
                \<and> contains s0 sc = Inr True"
  shows "contains tree subtree = Inr True"
proof (cases subtree)
  case (TreeNode w scs)
  with assms(1,3) have "contains_children (children tree) scs = Inr True"
    by (simp add: contains_children_complete)
  with assms(2) TreeNode show ?thesis by simp
qed

lemma contains_root_values:
  "contains tree subtree = Inr True \<Longrightarrow> equalValues (val tree) (val subtree) = Inr True"
  by (cases subtree) (auto split: sum.splits bool.splits)

text \<open>Whatever \<open>_contains\<close> accepts is embeddable: its answers \<open>true\<close> are right.\<close>

lemma contains_sound:
  "contains (tree :: 'a TreeNode) sub = Inr True \<longrightarrow> embeddable tree sub"
  "contains_children (tcs :: 'a TreeNode list) scs = Inr True \<longrightarrow>
     list_all (\<lambda>sc. list_ex (\<lambda>c. embeddable c sc) tcs) scs"
proof (induction tree sub and tcs scs rule: contains_contains_children.induct)
  case (1 tree w scs)
  then show ?case by (auto split: sum.splits bool.splits)
next
  case (2 tcs)
  then show ?case by simp
next
  case (3 tcs subtreeNode rest)
  show ?case
  proof
    assume h: "contains_children tcs (subtreeNode # rest) = Inr True"
    then obtain s0 s' where f: "filter_equal (val subtreeNode) tcs = Inr (s0 # s')"
      by (auto split: sum.splits list.splits)
    with h have c: "contains s0 subtreeNode = Inr True" and r: "contains_children tcs rest = Inr True"
      by (auto split: sum.splits bool.splits)
    from f have "s0 \<in> set tcs" using filter_equal_subset by fastforce
    moreover from "3.IH"(1)[OF f] c have "embeddable s0 subtreeNode" by simp
    ultimately have "list_ex (\<lambda>c. embeddable c subtreeNode) tcs" by (auto simp: list_ex_iff)
    moreover from "3.IH"(2)[OF f _ c] r
    have "list_all (\<lambda>sc. list_ex (\<lambda>c. embeddable c sc) tcs) rest" by simp
    ultimately show "list_all (\<lambda>sc. list_ex (\<lambda>c. embeddable c sc) tcs) (subtreeNode # rest)"
      by simp
  qed
qed

subsection \<open>The link function on the cases of link_spec.ts\<close>

lemma string_of_nat_11: "string_of_nat 11 = ''11''"
  by (simp add: digit_def)

lemma string_of_nat_22: "string_of_nat 22 = ''22''"
  by (simp add: digit_def)

lemma link_goes_to_root:
  "map_sum id serialize (link 200 (route_of seg_root) (routeTreeOf seg_root) url_root [CString ''/''])
     = Inr []"
  by (simp add: link_defs example_defs)

lemma link_positional_params:
  "map_sum id serialize
     (link 200 (route_of seg_a) (routeTreeOf seg_a) url_a_b
        [CString ''/one'', CNumber 11, CString ''two'', CNumber 22])
     = Inr ''/one/11/two/22''"
  by (simp add: link_defs example_defs string_of_nat_11 string_of_nat_22 del: string_of_nat.simps)

lemma link_changes_aux_route:
  "map_sum id serialize
     (link 200 (route_of seg_root) (routeTreeOf seg_root) url_a_11_b_c
        [CString ''/a'', CNumber 11, CString ''aux:d''])
     = Inr ''/a/11/b(aux:d)''"
  by (simp add: link_defs example_defs string_of_nat_11 del: string_of_nat.simps)

lemma link_updates_parameters:
  "map_sum id serialize
     (link 200 (route_of seg_root) (routeTreeOf seg_root) url_a_aa
        [CString ''/a'', CParams [(''aa'', ''22''), (''bb'', ''33'')]])
     = Inr ''/a;aa=22;bb=33''"
  by (simp add: link_defs example_defs)

lemma link_relative_with_dot:
  "map_sum id serialize
     (link 200 (route_of seg_a) (routeTreeOf seg_a) url_a_ap_c_cp [CString ''./c2''])
     = Inr ''/a(aux:ap)/c2(aux:cp)''"
  by (simp add: link_defs example_defs method_defs)

lemma link_relative_without_dot:
  "map_sum id serialize
     (link 200 (route_of seg_a) (routeTreeOf seg_a) url_a_ap_c_cp [CString ''c2''])
     = Inr ''/a(aux:ap)/c2(aux:cp)''"
  by (simp add: link_defs example_defs method_defs)

lemma link_nonempty_is_new_object:
  assumes "commands \<noteq> []" and "link next start routeTree urlTree commands = Inr t"
  shows "Tree.ref t = next"
  using assms
  by (auto simp: link_def split: list.splits option.splits sum.splits if_splits prod.splits)

subsection \<open>The claims\<close>

text \<open>
  C1. For the URL tree parsed from \<open>/a/11/b(c)\<close> and the commands \<open>["/a", 11, "d"]\<close>, link
  returns a tree that serializes to \<open>/a/11/d(aux:c)\<close>: the segments of the main route are
  new objects, and the auxiliary sibling \<open>c\<close> is the node it was. The commands are
  absolute, so this holds from every position of every route tree; in link_spec.ts the
  position is \<open>route_of seg_root\<close> in \<open>routeTreeOf seg_root\<close>.
\<close>

theorem link_changes_main_route_keeps_sibling:
  "link next start routeTree url_a_11_b_c [CString ''/a'', CNumber 11, CString ''d'']
     = Inr \<lparr>Tree.ref = next, root_node =
         TreeNode (VUrl seg_root) [TreeNode (VUrl (newUrlSegment (Suc next) ''a'' (Some []) None))
           [TreeNode (VUrl (newUrlSegment (Suc (Suc next)) ''11'' (Some []) None))
             [TreeNode (VUrl (newUrlSegment (Suc (Suc (Suc next))) ''d'' (Some []) None)) [],
              TreeNode (VUrl seg_c) []]]]\<rparr>
   \<and> map_sum id serialize
       (link next start routeTree url_a_11_b_c [CString ''/a'', CNumber 11, CString ''d''])
     = Inr ''/a/11/d(aux:c)''"
  by (simp add: link_defs example_defs string_of_nat_11 del: string_of_nat.simps)

text \<open>
  C2. For every position, route tree and URL tree, link with the empty command list returns
  the URL tree it was given: the same object, with the same reference, and not a new tree.
\<close>

theorem link_empty_commands_same_tree:
  "link next start routeTree urlTree [] = Inr urlTree"
  by (simp add: link_def)

text \<open>
  C3. A lookup of a value that is not in the tree. On the tree of \<open>/a/11/b(c)\<close> and the
  segment \<open>x\<close>, \<open>children\<close> and \<open>firstChild\<close> return \<open>null\<close>, but \<open>pathFromRoot\<close> and \<open>parent\<close>
  throw a \<open>TypeError\<close>. \<open>contains\<close> of the tree of \<open>/a/b\<close>, whose shape does not fit, returns
  \<open>false\<close>.
\<close>

theorem lookup_of_absent_value:
  "Tree_children url_a_11_b_c (VUrl seg_x) = Inr None
   \<and> Tree_firstChild url_a_11_b_c (VUrl seg_x) = Inr None
   \<and> Tree_pathFromRoot url_a_11_b_c (VUrl seg_x) = Inl TypeError
   \<and> Tree_parent url_a_11_b_c (VUrl seg_x) = Inl TypeError
   \<and> Tree_contains url_a_11_b_c url_a_b = Inr False"
  by (simp add: example_defs method_defs)

text \<open>
  C4, as stated, fails: \<open>seg_a_copy\<close> has the segment, outlet and parameters of the node
  \<open>seg_a\<close> of the tree of \<open>/a/11/b(c)\<close> and is another object. \<open>equalUrlSegments\<close> holds of the
  two and \<open>pathFromRoot\<close> finds the node, but \<open>children\<close> and \<open>firstChild\<close> return \<open>null\<close>,
  whereas for \<open>seg_a\<close> itself \<open>children\<close> returns the child \<open>11\<close>.
\<close>

theorem children_of_equal_UrlSegment_counterexample:
  "equalUrlSegments (Some seg_a_copy) (Some seg_a) = Inr True
   \<and> UrlSegment.ref seg_a_copy \<noteq> UrlSegment.ref seg_a
   \<and> Tree_pathFromRoot url_a_11_b_c (VUrl seg_a_copy) = Inr [VUrl seg_root, VUrl seg_a]
   \<and> Tree_children url_a_11_b_c (VUrl seg_a) = Inr (Some [VUrl seg_11])
   \<and> Tree_children url_a_11_b_c (VUrl seg_a_copy) = Inr None
   \<and> Tree_firstChild url_a_11_b_c (VUrl seg_a_copy) = Inr None"
  by (simp add: example_defs method_defs)

text \<open>
  C4, amended. \<open>children(v)\<close> and \<open>firstChild(v)\<close> compare \<open>v\<close> with the node values one by
  one in pre-order (the root, then the children from left to right, recursing) and stop at
  the first node where the comparison does not answer \<open>false\<close>: when it answers \<open>true\<close> that
  node is the match, when no node is left they return \<open>null\<close>, and when the comparison
  throws the lookup throws. For a \<open>RouteSegment\<close> \<open>v\<close> the comparison is \<open>equalSegments\<close> and,
  only when that answers \<open>false\<close>, identity; for every other \<open>v\<close>, a \<open>UrlSegment\<close> included, it
  is identity alone, which never throws. So for a \<open>UrlSegment\<close> the match is the first node
  with the identical value, and one that is only structurally equal is not found.
\<close>

theorem children_firstChild_search:
  "Tree_children T t =
     (case firstMatch t (preorder (root_node T)) of
        Inl e \<Rightarrow> Inl e
      | Inr None \<Rightarrow> Inr None
      | Inr (Some n) \<Rightarrow> Inr (Some (map val (children n))))
   \<and> Tree_firstChild T t =
     (case firstMatch t (preorder (root_node T)) of
        Inl e \<Rightarrow> Inl e
      | Inr None \<Rightarrow> Inr None
      | Inr (Some n) \<Rightarrow> Inr (case children n of [] \<Rightarrow> None | c # _ \<Rightarrow> Some (val c)))
   \<and> nodeMatches (VRoute a) x =
       (case equalSegments_any a x of
          Inl e \<Rightarrow> Inl e
        | Inr r \<Rightarrow> Inr (r \<or> strict_eq (VRoute a) x))
   \<and> nodeMatches (VUrl u) x = Inr (strict_eq (VUrl u) x)
   \<and> nodeMatches (VOther y) x = Inr (strict_eq (VOther y) x)
   \<and> nodeMatches VNull x = Inr (strict_eq VNull x)
   \<and> firstMatch (VUrl u) (preorder (root_node T)) =
       Inr (List.find (\<lambda>n. strict_eq (VUrl u) (val n)) (preorder (root_node T)))
   \<and> firstMatch (VOther y) (preorder (root_node T)) =
       Inr (List.find (\<lambda>n. strict_eq (VOther y) (val n)) (preorder (root_node T)))
   \<and> firstMatch VNull (preorder (root_node T)) =
       Inr (List.find (\<lambda>n. strict_eq VNull (val n)) (preorder (root_node T)))"
proof -
  have f: "findNode t (root_node T) = firstMatch t (preorder (root_node T))"
    by (rule findNode_is_firstMatch(1))
  have c: "Tree_children T t =
     (case firstMatch t (preorder (root_node T)) of
        Inl e \<Rightarrow> Inl e
      | Inr None \<Rightarrow> Inr None
      | Inr (Some n) \<Rightarrow> Inr (Some (map val (children n))))"
    by (simp add: Tree_children_def f isPresent_def split: sum.splits option.splits)
  have fc: "Tree_firstChild T t =
     (case firstMatch t (preorder (root_node T)) of
        Inl e \<Rightarrow> Inl e
      | Inr None \<Rightarrow> Inr None
      | Inr (Some n) \<Rightarrow> Inr (case children n of [] \<Rightarrow> None | c # _ \<Rightarrow> Some (val c)))"
    by (simp add: Tree_firstChild_def f isPresent_def split: sum.splits option.splits list.splits)
  have u: "firstMatch (VUrl u) (preorder (root_node T)) =
       Inr (List.find (\<lambda>n. strict_eq (VUrl u) (val n)) (preorder (root_node T)))"
    by (rule firstMatch_by_identity) simp
  have o: "firstMatch (VOther y) (preorder (root_node T)) =
       Inr (List.find (\<lambda>n. strict_eq (VOther y) (val n)) (preorder (root_node T)))"
    by (rule firstMatch_by_identity) simp
  have n: "firstMatch VNull (preorder (root_node T)) =
       Inr (List.find (\<lambda>n. strict_eq VNull (val n)) (preorder (root_node T)))"
    by (rule firstMatch_by_identity) simp
  from c fc u o n show ?thesis
    using nodeMatches_route[of a x] nodeMatches_not_route
    by simp
qed

theorem children_firstChild_search_witness:
  "firstMatch (VUrl seg_11) (preorder (root_node (url_a_11_b_c :: unit Tree)))
     = Inr (Some (TreeNode (VUrl seg_11) [TreeNode (VUrl seg_b) [], TreeNode (VUrl seg_c) []]))
   \<and> Tree_children (url_a_11_b_c :: unit Tree) (VUrl seg_11) = Inr (Some [VUrl seg_b, VUrl seg_c])
   \<and> Tree_firstChild (url_a_11_b_c :: unit Tree) (VUrl seg_11) = Inr (Some (VUrl seg_b))
   \<and> firstMatch (VUrl seg_a_copy) (preorder (root_node (url_a_11_b_c :: unit Tree))) = Inr None
   \<and> Tree_children (url_a_11_b_c :: unit Tree) (VUrl seg_a_copy) = Inr None
   \<and> Tree_firstChild (url_a_11_b_c :: unit Tree) (VUrl seg_a_copy) = Inr None
   \<and> Tree_children (route_tree_with_child :: unit Tree) (VRoute (route_of seg_a))
       = Inr (Some [VRoute route_no_params])
   \<and> firstMatch (VRoute route_no_params) (preorder (root_node (route_tree_with_child :: unit Tree)))
       = Inl TypeError
   \<and> Tree_children (route_tree_with_child :: unit Tree) (VRoute route_no_params) = Inl TypeError"
proof -
  have f1: "firstMatch (VUrl seg_11) (preorder (root_node (url_a_11_b_c :: unit Tree)))
     = Inr (Some (TreeNode (VUrl seg_11) [TreeNode (VUrl seg_b) [], TreeNode (VUrl seg_c) []]))"
    by (simp add: example_defs)
  have f2: "firstMatch (VUrl seg_a_copy) (preorder (root_node (url_a_11_b_c :: unit Tree))) = Inr None"
    by (simp add: example_defs)
  have f3: "firstMatch (VRoute (route_of seg_a)) (preorder (root_node (route_tree_with_child :: unit Tree)))
     = Inr (Some (root_node (route_tree_with_child :: unit Tree)))"
    by (simp add: example_defs equalSegments_def isBlank_def)
  have f4: "firstMatch (VRoute route_no_params) (preorder (root_node (route_tree_with_child :: unit Tree)))
     = Inl TypeError"
    by (simp add: example_defs equalSegments_def isBlank_def)
  have k: "map val (children (root_node (route_tree_with_child :: unit Tree))) = [VRoute route_no_params]"
    by (simp add: example_defs)
  note th1 = children_firstChild_search[of "url_a_11_b_c :: unit Tree" "VUrl seg_11" route_kj VNull seg_x "()"]
  note th2 = children_firstChild_search[of "url_a_11_b_c :: unit Tree" "VUrl seg_a_copy" route_kj VNull seg_x "()"]
  note th3 = children_firstChild_search[of "route_tree_with_child :: unit Tree" "VRoute (route_of seg_a)" route_kj VNull seg_x "()"]
  note th4 = children_firstChild_search[of "route_tree_with_child :: unit Tree" "VRoute route_no_params" route_kj VNull seg_x "()"]
  have "Tree_children (url_a_11_b_c :: unit Tree) (VUrl seg_11) = Inr (Some [VUrl seg_b, VUrl seg_c])"
    and "Tree_firstChild (url_a_11_b_c :: unit Tree) (VUrl seg_11) = Inr (Some (VUrl seg_b))"
    using th1 by (simp_all add: f1)
  moreover have "Tree_children (url_a_11_b_c :: unit Tree) (VUrl seg_a_copy) = Inr None"
    and "Tree_firstChild (url_a_11_b_c :: unit Tree) (VUrl seg_a_copy) = Inr None"
    using th2 by (simp_all add: f2)
  moreover have "Tree_children (route_tree_with_child :: unit Tree) (VRoute (route_of seg_a))
       = Inr (Some [VRoute route_no_params])"
    using th3 by (simp add: f3 k)
  moreover have "Tree_children (route_tree_with_child :: unit Tree) (VRoute route_no_params) = Inl TypeError"
    using th4 by (simp add: f4)
  ultimately show ?thesis using f1 f2 f4 by simp
qed

text \<open>
  C5. \<open>equalSegments\<close> and \<open>equalUrlSegments\<close> with both arguments \<open>null\<close>: neither guard
  returns, and the read of \<open>a._type\<close> (of \<open>a.segment\<close>) throws a \<open>TypeError\<close>.
\<close>

theorem equality_of_two_nulls_throws:
  "equalSegments None None = Inl TypeError \<and> equalUrlSegments None None = Inl TypeError"
  by (simp add: equalSegments_def equalUrlSegments_def isBlank_def)

text \<open>
  C6. For two \<open>UrlSegment\<close> values with parameter maps, \<open>equalUrlSegments\<close> is true exactly
  when they have the same segment, the same outlet, and parameter maps that are equal as
  sets of key/value pairs, in whatever order the keys are; the reference is not compared.
\<close>

theorem equalUrlSegments_iff:
  assumes "UrlSegment.parameters a = Some pa" and "UrlSegment.parameters b = Some pb"
  shows "equalUrlSegments (Some a) (Some b) =
           Inr (segment a = segment b \<and> UrlSegment.outlet a = UrlSegment.outlet b \<and> set pa = set pb)"
  using assms by (simp add: equalUrlSegments_def isBlank_def)

theorem equalUrlSegments_iff_witness:
  "UrlSegment.parameters seg_kj = Some [(''k'', ''1''), (''j'', ''2'')]
   \<and> UrlSegment.parameters seg_jk = Some [(''j'', ''2''), (''k'', ''1'')]
   \<and> equalUrlSegments (Some seg_kj) (Some seg_jk) = Inr True
   \<and> UrlSegment.parameters seg_a = Some []
   \<and> equalUrlSegments (Some seg_kj) (Some seg_a) = Inr False"
proof -
  have kj: "UrlSegment.parameters seg_kj = Some [(''k'', ''1''), (''j'', ''2'')]"
    by (simp add: example_defs)
  have jk: "UrlSegment.parameters seg_jk = Some [(''j'', ''2''), (''k'', ''1'')]"
    by (simp add: example_defs)
  have a: "UrlSegment.parameters seg_a = Some []"
    by (simp add: example_defs)
  have "equalUrlSegments (Some seg_kj) (Some seg_jk) = Inr True"
    unfolding equalUrlSegments_iff[OF kj jk] by (auto simp: example_defs)
  moreover have "equalUrlSegments (Some seg_kj) (Some seg_a) = Inr False"
    unfolding equalUrlSegments_iff[OF kj a] by (simp add: example_defs)
  ultimately show ?thesis using kj jk a by simp
qed


text \<open>
  C8, as stated, fails: in \<open>dup_tree\<close> the root has two children of equal value and only the
  second has a child. For the second child \<open>contains\<close> commits to the first, which has no
  child to match, and the tree does not contain itself.
\<close>

theorem contains_itself_counterexample:
  "Tree_contains dup_tree dup_tree = Inr False"
  by (simp add: example_defs method_defs)

text \<open>
  C8, amended. Every tree in which no two siblings carry equal values, and every value
  is equal to itself, contains itself.
\<close>

theorem contains_itself_without_equal_siblings:
  assumes "equalValues (Tree_root T) (Tree_root T) = Inr True" and "unambiguous (root_node T)"
  shows "Tree_contains T T = Inr True"
  using assms contains_self[of "root_node T"] by (simp add: Tree_contains_def Tree_root_def)

theorem contains_itself_without_equal_siblings_witness:
  "equalValues (Tree_root (url_a_11_b_c :: unit Tree)) (Tree_root url_a_11_b_c) = Inr True
   \<and> unambiguous (root_node (url_a_11_b_c :: unit Tree))
   \<and> Tree_contains (url_a_11_b_c :: unit Tree) url_a_11_b_c = Inr True"
proof -
  have r: "equalValues (Tree_root (url_a_11_b_c :: unit Tree)) (Tree_root url_a_11_b_c) = Inr True"
    by (simp add: example_defs method_defs)
  have u: "unambiguous (root_node (url_a_11_b_c :: unit Tree))"
    by (simp add: example_defs method_defs)
  from contains_itself_without_equal_siblings[OF r u] r u show ?thesis by simp
qed

text \<open>
  C9. \<open>contains\<close> commits to the first match: when it answers \<open>true\<close>, the root values are
  equal and for every child of the subtree the first value-equal child of the tree node is
  one that contains it; and when no comparison of children throws, that condition is also
  enough for the answer \<open>true\<close>. And there are a tree and a subtree, the root of the tree having two children
  \<open>first\<close> and \<open>second\<close> of equal value, such that the subtree is embeddable in the tree
  (through \<open>second\<close>) and \<open>contains\<close> answers \<open>false\<close>, because \<open>first\<close> does not contain the
  child of the subtree.
\<close>

theorem contains_commits_to_first_match:
  "(contains tree subtree = Inr True \<longrightarrow>
      equalValues (val tree) (val subtree) = Inr True
      \<and> (\<forall>sc\<in>set (children subtree).
           \<exists>s0. List.find (\<lambda>c. equalValues (val c) (val sc) = Inr True) (children tree) = Some s0
                \<and> contains s0 sc = Inr True))
   \<and> ((\<forall>c\<in>set (children tree). \<forall>sc\<in>set (children subtree).
          equalValues (val c) (val sc) \<noteq> Inl TypeError)
      \<and> equalValues (val tree) (val subtree) = Inr True
      \<and> (\<forall>sc\<in>set (children subtree).
           \<exists>s0. List.find (\<lambda>c. equalValues (val c) (val sc) = Inr True) (children tree) = Some s0
                \<and> contains s0 sc = Inr True)
      \<longrightarrow> contains tree subtree = Inr True)
   \<and> (\<exists>(t :: 'a TreeNode) s first second sc.
        children t = [first, second] \<and> children s = [sc]
        \<and> equalValues (val first) (val sc) = Inr True
        \<and> equalValues (val second) (val sc) = Inr True
        \<and> contains first sc = Inr False
        \<and> contains second sc = Inr True
        \<and> embeddable t s
        \<and> contains t s = Inr False)"
proof (intro conjI)
  show "contains tree subtree = Inr True \<longrightarrow>
      equalValues (val tree) (val subtree) = Inr True
      \<and> (\<forall>sc\<in>set (children subtree).
         \<exists>s0. List.find (\<lambda>c. equalValues (val c) (val sc) = Inr True) (children tree) = Some s0
              \<and> contains s0 sc = Inr True)"
    using contains_first_match contains_root_values by blast
next
  show "(\<forall>c\<in>set (children tree). \<forall>sc\<in>set (children subtree).
          equalValues (val c) (val sc) \<noteq> Inl TypeError)
      \<and> equalValues (val tree) (val subtree) = Inr True
      \<and> (\<forall>sc\<in>set (children subtree).
           \<exists>s0. List.find (\<lambda>c. equalValues (val c) (val sc) = Inr True) (children tree) = Some s0
                \<and> contains s0 sc = Inr True)
      \<longrightarrow> contains tree subtree = Inr True"
    using contains_complete[of tree subtree] by blast
next
  let ?first = "TreeNode (VUrl seg_a) [] :: 'a TreeNode"
  let ?second = "TreeNode (VUrl seg_a_copy) [TreeNode (VUrl seg_b) []] :: 'a TreeNode"
  have ex: "children (root_node (dup_tree :: 'a Tree)) = [?first, ?second]
        \<and> children (root_node (dup_subtree :: 'a Tree)) = [?second]
        \<and> equalValues (val ?first) (val ?second) = Inr True
        \<and> equalValues (val ?second) (val ?second) = Inr True
        \<and> contains ?first ?second = Inr False
        \<and> contains ?second ?second = Inr True
        \<and> embeddable (root_node (dup_tree :: 'a Tree)) (root_node (dup_subtree :: 'a Tree))
        \<and> contains (root_node (dup_tree :: 'a Tree)) (root_node (dup_subtree :: 'a Tree)) = Inr False"
    by (simp add: example_defs method_defs)
  show "\<exists>(t :: 'a TreeNode) s first second sc.
        children t = [first, second] \<and> children s = [sc]
        \<and> equalValues (val first) (val sc) = Inr True
        \<and> equalValues (val second) (val sc) = Inr True
        \<and> contains first sc = Inr False
        \<and> contains second sc = Inr True
        \<and> embeddable t s
        \<and> contains t s = Inr False"
    by (rule exI, rule exI, rule exI, rule exI, rule exI, rule ex)
qed

theorem contains_commits_to_first_match_witness:
  "list_all (\<lambda>c. list_all (\<lambda>sc. equalValues (val c) (val sc) \<noteq> Inl TypeError)
                    (children (root_node (url_a_11_b_c :: unit Tree))))
     (children (root_node (url_a_11_b_c :: unit Tree)))
   \<and> contains (root_node (url_a_11_b_c :: unit Tree)) (root_node (url_a_11_b_c :: unit Tree)) = Inr True
   \<and> equalValues (val (root_node (url_a_11_b_c :: unit Tree))) (val (root_node (url_a_11_b_c :: unit Tree))) = Inr True
   \<and> list_all
        (\<lambda>sc. \<exists>s0. List.find (\<lambda>c. equalValues (val c) (val sc) = Inr True)
                      (children (root_node (url_a_11_b_c :: unit Tree))) = Some s0
                   \<and> contains s0 sc = Inr True)
        (children (root_node (url_a_11_b_c :: unit Tree)))"
proof -
  let ?t = "root_node (url_a_11_b_c :: unit Tree)"
  have c: "contains ?t ?t = Inr True"
    by (simp add: example_defs method_defs)
  have n: "\<forall>c\<in>set (children ?t). \<forall>sc\<in>set (children ?t). equalValues (val c) (val sc) \<noteq> Inl TypeError"
    by (simp add: example_defs method_defs)
  note th = contains_commits_to_first_match[of ?t ?t]
  from th c
  have a: "equalValues (val ?t) (val ?t) = Inr True
      \<and> (\<forall>sc\<in>set (children ?t).
         \<exists>s0. List.find (\<lambda>c. equalValues (val c) (val sc) = Inr True) (children ?t) = Some s0
              \<and> contains s0 sc = Inr True)"
    by blast
  from th n a have "contains ?t ?t = Inr True"
    by blast
  with n a show ?thesis unfolding list_all_iff by blast
qed

text \<open>
  C10. \<open>getParam\<close> of a \<open>RouteSegment\<close> without a parameter map returns \<open>null\<close> for every name;
  with a map it returns the value stored under the name.
\<close>

theorem getParam_null_or_stored:
  "(RouteSegment.parameters this = None \<longrightarrow> getParam this param = Null)
   \<and> (RouteSegment.parameters this = Some m \<and> map_of m param = Some v \<longrightarrow>
        getParam this param = Str v)"
  by (simp add: getParam_def isPresent_def)

theorem getParam_null_or_stored_witness:
  "RouteSegment.parameters route_no_params = None
   \<and> getParam route_no_params ''id'' = Null
   \<and> RouteSegment.parameters route_kj = Some [(''k'', ''1''), (''j'', ''2'')]
   \<and> map_of [(''k'', ''1''), (''j'', ''2'')] ''j'' = Some ''2''
   \<and> getParam route_kj ''j'' = Str ''2''"
proof -
  have n: "RouteSegment.parameters route_no_params = None"
    by (simp add: example_defs)
  have p: "RouteSegment.parameters route_kj = Some [(''k'', ''1''), (''j'', ''2'')]"
    by (simp add: example_defs)
  have l: "map_of [(''k'', ''1''), (''j'', ''2'')] ''j'' = Some ''2''"
    by simp
  from getParam_null_or_stored[of route_no_params "''id''"] n
  have "getParam route_no_params ''id'' = Null" by blast
  moreover from getParam_null_or_stored[of route_kj "''j''" "[(''k'', ''1''), (''j'', ''2'')]" "''2''"] p l
  have "getParam route_kj ''j'' = Str ''2''" by blast
  ultimately show ?thesis using n p l by simp
qed

end
